theory Spec2Isabelle
  imports Main
begin

section \<open>JavaScript values\<close>

text \<open>
  The table core is TypeScript over open JSON-like data. A value is one of the JavaScript
  primitives, an array or a plain object. Numbers are modelled by the integers (row indexes,
  page numbers, pixel widths); objects are finite key/value maps, so the order of the keys
  is not represented. A record of the data source, a column schema, a property bag and the
  table state are all plain objects.
\<close>

datatype jsval =
    JUndefined
  | JNull
  | JBool bool
  | JNum int
  | JStr string
  | JArr "jsval list"
  | JObj "string \<Rightarrow> jsval option"

type_synonym obj = "string \<Rightarrow> jsval option"

text \<open>\<open>o[k]\<close>: reading a key that the object does not have yields \<open>undefined\<close>.\<close>

definition obj_get :: "obj \<Rightarrow> string \<Rightarrow> jsval" where
  "obj_get ob k = (case ob k of None \<Rightarrow> JUndefined | Some v \<Rightarrow> v)"

text \<open>\<open>k in o\<close>.\<close>

definition obj_has :: "obj \<Rightarrow> string \<Rightarrow> bool" where
  "obj_has ob k = (ob k \<noteq> None)"

text \<open>Truthiness, \<open>a || b\<close> and \<open>a ?? b\<close>.\<close>

fun js_truthy :: "jsval \<Rightarrow> bool" where
  "js_truthy JUndefined = False"
| "js_truthy JNull = False"
| "js_truthy (JBool b) = b"
| "js_truthy (JNum n) = (n \<noteq> 0)"
| "js_truthy (JStr s) = (s \<noteq> [])"
| "js_truthy (JArr xs) = True"
| "js_truthy (JObj m) = True"

definition js_or :: "jsval \<Rightarrow> jsval \<Rightarrow> jsval" where
  "js_or a b = (if js_truthy a then a else b)"

fun js_nullish :: "jsval \<Rightarrow> bool" where
  "js_nullish JUndefined = True"
| "js_nullish JNull = True"
| "js_nullish v = False"

definition js_coalesce :: "jsval \<Rightarrow> jsval \<Rightarrow> jsval" where
  "js_coalesce a b = (if js_nullish a then b else a)"

text \<open>\<open>typeof v === 'undefined'\<close> and \<open>Array.isArray(v)\<close>.\<close>

fun js_is_undefined :: "jsval \<Rightarrow> bool" where
  "js_is_undefined JUndefined = True"
| "js_is_undefined v = False"

fun js_isArray :: "jsval \<Rightarrow> bool" where
  "js_isArray (JArr xs) = True"
| "js_isArray v = False"

fun js_array_length :: "jsval \<Rightarrow> nat" where
  "js_array_length (JArr xs) = length xs"
| "js_array_length v = 0"

text \<open>
  Strict equality \<open>a === b\<close>. Primitives compare by value. An array or object value of
  the model stands for an object of its own, so two of them are never the same reference.
\<close>

fun js_strict_eq :: "jsval \<Rightarrow> jsval \<Rightarrow> bool" where
  "js_strict_eq JUndefined JUndefined = True"
| "js_strict_eq JNull JNull = True"
| "js_strict_eq (JBool a) (JBool b) = (a = b)"
| "js_strict_eq (JNum a) (JNum b) = (a = b)"
| "js_strict_eq (JStr a) (JStr b) = (a = b)"
| "js_strict_eq a b = False"

subsection \<open>Conversion to string\<close>

definition digit_char :: "nat \<Rightarrow> char" where
  "digit_char d = ''0123456789'' ! (d mod 10)"

fun digits_of_nat :: "nat \<Rightarrow> string" where
  "digits_of_nat n =
     (if n < 10 then [digit_char n] else digits_of_nat (n div 10) @ [digit_char n])"

declare digits_of_nat.simps [simp del]

fun js_join :: "string list \<Rightarrow> string" where
  "js_join [] = []"
| "js_join [s] = s"
| "js_join (s # t # ss) = s @ '','' @ js_join (t # ss)"

text \<open>
  \<open>String(v)\<close>, also the conversion applied by a template literal \<open>`${v}`\<close> and by a
  property key. An array prints its elements joined by commas, \<open>null\<close> and \<open>undefined\<close>
  elements printing as the empty string.
\<close>

primrec js_String :: "jsval \<Rightarrow> string" where
  "js_String JUndefined = ''undefined''"
| "js_String JNull = ''null''"
| "js_String (JBool b) = (if b then ''true'' else ''false'')"
| "js_String (JNum n) =
     (if n < 0 then CHR ''-'' # digits_of_nat (nat (- n)) else digits_of_nat (nat n))"
| "js_String (JStr s) = s"
| "js_String (JArr xs) =
     js_join (map2 (\<lambda>x s. if js_nullish x then [] else s) xs (map js_String xs))"
| "js_String (JObj m) = ''[object Object]''"

text \<open>
  \<open>s.trim()\<close> removes white space and line terminators from both ends. Characters are
  the code units below 256: tab, line feed, vertical tab, form feed, carriage return,
  space and the no-break space.
\<close>

definition js_white :: "char \<Rightarrow> bool" where
  "js_white c = (of_char c \<in> {9, 10, 11, 12, 13, 32, 160 :: nat})"

definition js_trim :: "string \<Rightarrow> string" where
  "js_trim s = rev (dropWhile js_white (rev (dropWhile js_white s)))"

text \<open>The test \<open>/^[0-9]+$/uig\<close>: one or more characters, all of them decimal digits.\<close>

definition is_digit :: "char \<Rightarrow> bool" where
  "is_digit c = (c \<in> set ''0123456789'')"

definition all_digits :: "string \<Rightarrow> bool" where
  "all_digits s = (s \<noteq> [] \<and> list_all is_digit s)"

section \<open>The state store (\<open>hooks.ts\<close>)\<close>

text \<open>
  \<open>useState\<close> is a reducer over a state object. The action is either a partial state or a
  function from the current state to a partial state; the result is
  \<open>{ ...state, ...data }\<close>.
\<close>

datatype action = Patch obj | Updater "obj \<Rightarrow> obj"

definition useState_reducer :: "obj \<Rightarrow> action \<Rightarrow> obj" where
  "useState_reducer state act =
     (let data = (case act of Updater f \<Rightarrow> f state | Patch p \<Rightarrow> p)
      in state ++ data)"

section \<open>Row keys of the rendered data source\<close>

text \<open>
  \<open>tableProps.dataSource\<close>: every item is copied, and its row key field (the schema's
  \<open>rowKey\<close>, or \<open>'key'\<close> when the schema has none) is set to the item's index when the
  item has no value there.
\<close>

definition schema_rowKey :: "string option \<Rightarrow> string" where
  "schema_rowKey rk = (case rk of None \<Rightarrow> ''key'' | Some k \<Rightarrow> k)"

definition dataSource_item :: "string option \<Rightarrow> obj \<Rightarrow> nat \<Rightarrow> obj" where
  "dataSource_item rk item index =
     (let rowKey = schema_rowKey rk
      in item(rowKey \<mapsto>
           (if js_is_undefined (obj_get item rowKey) then JNum (int index)
            else obj_get item rowKey)))"

definition tableProps_dataSource :: "string option \<Rightarrow> obj list \<Rightarrow> obj list" where
  "tableProps_dataSource rk dataSource =
     map (\<lambda>(index, item). dataSource_item rk item index) (enumerate 0 dataSource)"

section \<open>Column width\<close>

text \<open>
  The first statements of \<open>columnGenerator\<close>: the width of the schema column is converted
  to a string and trimmed, and \<open>px\<close> is appended when the regular expression matches.
\<close>

definition columnGenerator_width :: "jsval \<Rightarrow> string" where
  "columnGenerator_width w =
     (let width = js_trim (js_String w)
      in if all_digits width then width @ ''px'' else width)"

section \<open>Expandable rows\<close>

text \<open>
  \<open>expandable.rowExpandable\<close>: the closure over the host's optional predicate and the
  schema's optional subtable, of which only the \<open>dataSourceKey\<close> is read. The
  \<open>expandable\<close> object that carries the closure exists when the schema has a subtable or
  the host gives an \<open>expandedRowRender\<close>.
\<close>

definition expandable_rowExpandable ::
  "(obj \<Rightarrow> bool) option \<Rightarrow> string option \<Rightarrow> obj \<Rightarrow> bool" where
  "expandable_rowExpandable rowExpandable subtable_dataSourceKey record =
     (if (case rowExpandable of None \<Rightarrow> False | Some f \<Rightarrow> f record) then True
      else (case subtable_dataSourceKey of
              Some dataSourceKey \<Rightarrow>
                (let ds = obj_get record dataSourceKey
                 in js_isArray ds \<and> js_array_length ds > 0)
            | None \<Rightarrow> False))"

definition tableProps_expandable ::
  "(obj \<Rightarrow> bool) option \<Rightarrow> string option \<Rightarrow> bool \<Rightarrow> (obj \<Rightarrow> bool) option" where
  "tableProps_expandable rowExpandable subtable_dataSourceKey has_expandedRowRender =
     (if subtable_dataSourceKey \<noteq> None \<or> has_expandedRowRender
      then Some (expandable_rowExpandable rowExpandable subtable_dataSourceKey)
      else None)"

text \<open>
  What the table handed to the driver says of a record: the answer of
  \<open>expandable.rowExpandable\<close>, or nothing when \<open>expandable\<close> is \<open>undefined\<close>.
\<close>

definition row_expandable ::
  "(obj \<Rightarrow> bool) option \<Rightarrow> string option \<Rightarrow> bool \<Rightarrow> obj \<Rightarrow> bool option" where
  "row_expandable rowExpandable subtable_dataSourceKey has_expandedRowRender record =
     (case tableProps_expandable rowExpandable subtable_dataSourceKey has_expandedRowRender of
        None \<Rightarrow> None
      | Some marks \<Rightarrow> Some (marks record))"

section \<open>Deprecated column form\<close>

text \<open>
  The first statement of \<open>DripTable\<close>. When some column has a truthy \<open>ui:type\<close> or
  \<open>ui:props\<close>, every column that has one of the two keys is replaced by a copy without
  them, with \<open>options\<close> and \<open>component\<close> set, and one line is written to the console for
  each of the two keys the column has. The console is the list of the lines written so far.
\<close>

definition warn_ui_type :: "jsval \<Rightarrow> string" where
  "warn_ui_type key =
     ''[DripTable] Column '' @ js_String key
       @ '' '' @ [CHR 0x22] @ ''ui:type'' @ [CHR 0x22] @ '' is deprecated, please use ''
       @ [CHR 0x22] @ ''component'' @ [CHR 0x22] @ '' instead.''"

definition warn_ui_props :: "jsval \<Rightarrow> string" where
  "warn_ui_props key =
     ''[DripTable] Column '' @ js_String key
       @ '' '' @ [CHR 0x22] @ ''ui:props'' @ [CHR 0x22] @ '' is deprecated, please use ''
       @ [CHR 0x22] @ ''options'' @ [CHR 0x22] @ '' instead.''"

definition column_warnings :: "obj \<Rightarrow> string list" where
  "column_warnings column =
     (let key = obj_get column ''key''
      in (if obj_has column ''ui:type'' then [warn_ui_type key] else [])
         @ (if obj_has column ''ui:props'' then [warn_ui_props key] else []))"

definition rewrite_column :: "obj \<Rightarrow> obj" where
  "rewrite_column column =
     (column |` (- {''ui:type'', ''ui:props''}))
       (''options'' \<mapsto>
          js_or (js_or (obj_get column ''ui:props'') (obj_get column ''options'')) JUndefined,
        ''component'' \<mapsto> js_or (obj_get column ''ui:type'') (obj_get column ''component''))"

definition compat_column :: "obj \<Rightarrow> obj \<times> string list" where
  "compat_column column =
     (if obj_has column ''ui:type'' \<or> obj_has column ''ui:props''
      then (rewrite_column column, column_warnings column)
      else (column, []))"

definition compat_columns :: "obj list \<Rightarrow> string list \<Rightarrow> obj list \<times> string list" where
  "compat_columns columns console =
     (if list_ex (\<lambda>c. js_truthy (js_or (obj_get c ''ui:type'') (obj_get c ''ui:props''))) columns
      then (map (\<lambda>c. fst (compat_column c)) columns,
            console @ concat (map (\<lambda>c. snd (compat_column c)) columns))
      else (columns, console))"

section \<open>Cell renderers\<close>

text \<open>
  What the environment of \<open>renderGenerator\<close> holds. The table of built-in components and
  the two validators are modules outside the files at hand, so they are parameters:
  \<open>builtins\<close> is the lookup \<open>DripTableBuiltInComponents[name]\<close>, \<open>validateColumn\<close> is
  \<open>validateDripTableColumnSchema\<close> and \<open>validateProps\<close> is \<open>validateDripTableProps\<close>,
  both returning the error message (empty when there is none). \<open>components\<close> is the
  host's \<open>props.components\<close>, \<open>ajv\<close> is \<open>props.ajv !== false\<close>, \<open>ext\<close> is
  \<open>props.ext\<close> and \<open>editable\<close> is \<open>props.schema.editable\<close>.
\<close>

record 'r env =
  builtins :: "string \<Rightarrow> 'r option"
  components :: "(string \<Rightarrow> (string \<Rightarrow> 'r option) option) option"
  ajv :: bool
  validateColumn :: "obj \<Rightarrow> 'r \<Rightarrow> string"
  validateProps :: "obj list \<Rightarrow> string"
  ext :: jsval
  editable :: jsval

datatype js_error = TypeError

text \<open>
  The props a resolved component is rendered with. The closures \<open>fireEvent\<close> and
  \<open>onChange\<close> capture the record and the row index; \<open>cp_index\<close> is that index and
  \<open>cp_onChange\<close> tells whether an \<open>onChange\<close> is passed at all.
\<close>

record component_props =
  cp_value :: jsval
  cp_data :: obj
  cp_schema :: obj
  cp_ext :: jsval
  cp_index :: nat
  cp_editable :: jsval
  cp_onChange :: bool

text \<open>
  What a cell render function returns: an element of class \<open>ajv-error\<close> with a text (a
  \<open>div\<close> or a \<open>pre\<close>), a component with its props, or the string
  \<open>JSON.stringify(value)\<close>, which is kept symbolic.
\<close>

datatype 'r element =
    ErrorDiv string
  | ErrorPre string
  | Component 'r component_props
  | JsonStringify jsval

type_synonym 'r render = "jsval \<Rightarrow> obj \<Rightarrow> nat \<Rightarrow> 'r element"

text \<open>\<open>s.split('::')\<close>.\<close>

fun js_split_colons :: "string \<Rightarrow> string list" where
  "js_split_colons [] = [ [] ]"
| "js_split_colons [c] = [ [c] ]"
| "js_split_colons (c # d # rest) =
     (if c = CHR '':'' \<and> d = CHR '':'' then [] # js_split_colons rest
      else (case js_split_colons (d # rest) of
              p # ps \<Rightarrow> (c # p) # ps
            | [] \<Rightarrow> [ [c] ]))"

text \<open>
  \<open>const [libName, componentName] = name.split('::')\<close> followed by
  \<open>props.components?.[libName]?.[componentName]\<close> under the guard
  \<open>libName && componentName\<close>.
\<close>

definition extra_component :: "'r env \<Rightarrow> string \<Rightarrow> 'r option" where
  "extra_component env name =
     (case js_split_colons name of
        libName # componentName # _ \<Rightarrow>
          (if libName \<noteq> [] \<and> componentName \<noteq> []
           then (case components env of
                   None \<Rightarrow> None
                 | Some libs \<Rightarrow>
                     (case libs libName of None \<Rightarrow> None | Some lib \<Rightarrow> lib componentName))
           else None)
      | _ \<Rightarrow> None)"

definition unknown_component :: "obj \<Rightarrow> 'r render" where
  "unknown_component schema =
     (\<lambda>value record index.
        ErrorDiv (''Unknown column component: '' @ js_String (obj_get schema ''component'')))"

text \<open>\<open>renderGenerator\<close> of \<open>drip-table/index.tsx\<close>.\<close>

definition renderGenerator :: "'r env \<Rightarrow> obj \<Rightarrow> js_error + 'r render" where
  "renderGenerator env schema =
     (if obj_has schema ''component'' then
        (case builtins env (js_String (obj_get schema ''component'')) of
           Some BuiltInComponent \<Rightarrow>
             (if ajv env \<and> validateColumn env schema BuiltInComponent \<noteq> []
              then Inr (\<lambda>value record index.
                     ErrorDiv (''Schema validate failed: ''
                               @ validateColumn env schema BuiltInComponent))
              else Inr (\<lambda>value record index.
                     Component BuiltInComponent
                       \<lparr>cp_value = js_coalesce value (obj_get schema ''defaultValue''),
                        cp_data = record, cp_schema = schema, cp_ext = ext env,
                        cp_index = index, cp_editable = JUndefined, cp_onChange = False\<rparr>))
         | None \<Rightarrow>
             (case obj_get schema ''component'' of
                JStr name \<Rightarrow>
                  (case extra_component env name of
                     Some ExtraComponent \<Rightarrow>
                       (if ajv env \<and> validateColumn env schema ExtraComponent \<noteq> []
                        then Inr (\<lambda>value record index.
                               ErrorDiv (''Schema validate failed: ''
                                         @ validateColumn env schema ExtraComponent))
                        else Inr (\<lambda>value record index.
                               Component ExtraComponent
                                 \<lparr>cp_value = js_coalesce value (obj_get schema ''defaultValue''),
                                  cp_data = record, cp_schema = schema, cp_ext = ext env,
                                  cp_index = index, cp_editable = JUndefined,
                                  cp_onChange = False\<rparr>))
                   | None \<Rightarrow> Inr (unknown_component schema))
              | _ \<Rightarrow> Inl TypeError))
      else Inr (unknown_component schema))"

text \<open>
  \<open>renderGenerator\<close> of the revision with cell editing (the second part of
  \<open>components/text/index.tsx\<close>): the component also gets \<open>editable\<close> and \<open>onChange\<close>, and
  a failed validation is shown in a \<open>pre\<close>.
\<close>

definition renderGenerator_edit :: "'r env \<Rightarrow> obj \<Rightarrow> js_error + 'r render" where
  "renderGenerator_edit env schema =
     (if obj_has schema ''component'' then
        (case builtins env (js_String (obj_get schema ''component'')) of
           Some BuiltInComponent \<Rightarrow>
             (if ajv env \<and> validateColumn env schema BuiltInComponent \<noteq> []
              then Inr (\<lambda>value record index.
                     ErrorPre (''Schema validate failed: ''
                               @ validateColumn env schema BuiltInComponent))
              else Inr (\<lambda>value record index.
                     Component BuiltInComponent
                       \<lparr>cp_value = js_coalesce value (obj_get schema ''defaultValue''),
                        cp_data = record, cp_schema = schema, cp_ext = ext env,
                        cp_index = index, cp_editable = editable env, cp_onChange = True\<rparr>))
         | None \<Rightarrow>
             (case obj_get schema ''component'' of
                JStr name \<Rightarrow>
                  (case extra_component env name of
                     Some ExtraComponent \<Rightarrow>
                       (if ajv env \<and> validateColumn env schema ExtraComponent \<noteq> []
                        then Inr (\<lambda>value record index.
                               ErrorPre (''Schema validate failed: ''
                                         @ validateColumn env schema ExtraComponent))
                        else Inr (\<lambda>value record index.
                               Component ExtraComponent
                                 \<lparr>cp_value = js_coalesce value (obj_get schema ''defaultValue''),
                                  cp_data = record, cp_schema = schema, cp_ext = ext env,
                                  cp_index = index, cp_editable = editable env,
                                  cp_onChange = True\<rparr>))
                   | None \<Rightarrow> Inr (unknown_component schema))
              | _ \<Rightarrow> Inl TypeError))
      else Inr (unknown_component schema))"

text \<open>
  \<open>renderGenerator\<close> of the earlier revision (\<open>unnamed/part_000\<close>), which reads the
  component name from \<open>ui:type\<close>. A built-in component gets the schema merged with its
  \<open>ui:props\<close>; spreading a value that is not an object adds nothing.
\<close>

definition spread_value :: "jsval \<Rightarrow> obj" where
  "spread_value v = (case v of JObj m \<Rightarrow> m | _ \<Rightarrow> Map.empty)"

definition legacy_render :: "'r env \<Rightarrow> obj \<Rightarrow> js_error + 'r render" where
  "legacy_render env schema =
     (case obj_get schema ''ui:type'' of
        JStr name \<Rightarrow>
          (case extra_component env name of
             Some ExtraComponent \<Rightarrow>
               Inr (\<lambda>value record index.
                 Component ExtraComponent
                   \<lparr>cp_value = value, cp_data = record, cp_schema = schema, cp_ext = ext env,
                    cp_index = index, cp_editable = JUndefined, cp_onChange = False\<rparr>)
           | None \<Rightarrow> Inr (\<lambda>value record index. JsonStringify value))
      | _ \<Rightarrow> Inl TypeError)"

definition renderGenerator_legacy :: "'r env \<Rightarrow> obj \<Rightarrow> js_error + 'r render" where
  "renderGenerator_legacy env schema =
     (let uiType = (if obj_has schema ''ui:type'' then obj_get schema ''ui:type'' else JUndefined)
      in if js_truthy uiType then
           (case builtins env (js_String uiType) of
              Some BuiltInComponent \<Rightarrow>
                Inr (\<lambda>value record index.
                  Component BuiltInComponent
                    \<lparr>cp_value = value, cp_data = record,
                     cp_schema = (schema ++ spread_value (obj_get schema ''ui:props''))
                                   (''ui:type'' \<mapsto> uiType),
                     cp_ext = ext env, cp_index = index, cp_editable = JUndefined,
                     cp_onChange = False\<rparr>)
            | None \<Rightarrow> legacy_render env schema)
         else legacy_render env schema)"

section \<open>Column descriptors\<close>

datatype title = PlainTitle jsval | DescribedTitle jsval jsval

record 'r column =
  col_width :: string
  col_align :: jsval
  col_title :: title
  col_dataIndex :: jsval
  col_fixed :: jsval
  col_filters :: jsval
  col_defaultFilteredValue :: jsval
  col_ellipsis :: bool
  col_render :: "'r render"

text \<open>
  \<open>columnGenerator\<close>; the CSS class name of the column is left out. \<open>ellipsis\<close> is
  \<open>props.schema.ellipsis\<close>. An exception of \<open>renderGenerator\<close> leaves \<open>columnGenerator\<close>.
\<close>

definition columnGenerator :: "'r env \<Rightarrow> jsval \<Rightarrow> obj \<Rightarrow> js_error + 'r column" where
  "columnGenerator env ellipsis schemaColumn =
     (case renderGenerator env schemaColumn of
        Inl e \<Rightarrow> Inl e
      | Inr render \<Rightarrow>
          Inr \<lparr>col_width = columnGenerator_width (obj_get schemaColumn ''width''),
               col_align = obj_get schemaColumn ''align'',
               col_title =
                 (if js_truthy (obj_get schemaColumn ''description'')
                  then DescribedTitle (obj_get schemaColumn ''title'')
                         (obj_get schemaColumn ''description'')
                  else PlainTitle (obj_get schemaColumn ''title'')),
               col_dataIndex = obj_get schemaColumn ''dataIndex'',
               col_fixed = obj_get schemaColumn ''fixed'',
               col_filters = obj_get schemaColumn ''filters'',
               col_defaultFilteredValue = obj_get schemaColumn ''defaultFilteredValue'',
               col_ellipsis = js_truthy ellipsis,
               col_render = render\<rparr>)"

text \<open>\<open>xs.map(f)\<close> for an \<open>f\<close> that may throw: the first exception ends the loop.\<close>

fun map_throwing :: "('a \<Rightarrow> 'e + 'b) \<Rightarrow> 'a list \<Rightarrow> 'e + 'b list" where
  "map_throwing f [] = Inr []"
| "map_throwing f (x # xs) =
     (case f x of
        Inl e \<Rightarrow> Inl e
      | Inr y \<Rightarrow> (case map_throwing f xs of Inl e \<Rightarrow> Inl e | Inr ys \<Rightarrow> Inr (y # ys)))"

text \<open>
  \<open>tableProps.columns\<close>: the columns that are not hidable or whose key is among the
  displayed keys of the table state, each through \<open>columnGenerator\<close>.
\<close>

definition column_visible :: "jsval list \<Rightarrow> obj \<Rightarrow> bool" where
  "column_visible displayColumnKeys column =
     (\<not> js_truthy (obj_get column ''hidable'')
      \<or> list_ex (js_strict_eq (obj_get column ''key'')) displayColumnKeys)"

definition tableProps_columns ::
  "'r env \<Rightarrow> jsval \<Rightarrow> obj list \<Rightarrow> jsval list \<Rightarrow> js_error + 'r column list" where
  "tableProps_columns env ellipsis columns displayColumnKeys =
     map_throwing (columnGenerator env ellipsis) (filter (column_visible displayColumnKeys) columns)"

text \<open>
  \<open>DripTable\<close> up to the columns handed to the driver's table: the deprecated columns
  are rewritten, then the props are validated unless \<open>ajv\<close> is \<open>false\<close>, then the columns
  are generated. The result comes with the console.
\<close>

datatype 'r view = PropsError string | TableView "'r column list"

definition DripTable ::
  "'r env \<Rightarrow> jsval \<Rightarrow> obj list \<Rightarrow> jsval list \<Rightarrow> string list
     \<Rightarrow> (js_error + 'r view) \<times> string list" where
  "DripTable env ellipsis columns displayColumnKeys console =
     (let (columns', console') = compat_columns columns console
      in if ajv env \<and> validateProps env columns' \<noteq> []
         then (Inr (PropsError (''Props validate failed: '' @ validateProps env columns')),
               console')
         else (case tableProps_columns env ellipsis columns' displayColumnKeys of
                 Inl e \<Rightarrow> (Inl e, console')
               | Inr cs \<Rightarrow> (Inr (TableView cs), console')))"

text \<open>The console after rendering the same schema \<open>n\<close> times.\<close>

fun render_times ::
  "nat \<Rightarrow> 'r env \<Rightarrow> jsval \<Rightarrow> obj list \<Rightarrow> jsval list \<Rightarrow> string list \<Rightarrow> string list" where
  "render_times 0 env ellipsis columns keys console = console"
| "render_times (Suc n) env ellipsis columns keys console =
     render_times n env ellipsis columns keys
       (snd (DripTable env ellipsis columns keys console))"

section \<open>Properties of a subtable\<close>








section \<open>Pagination and filter changes\<close>

text \<open>
  \<open>tableProps.onChange\<close>. The handler runs against a world made of the table state of
  the store and the trace of what has happened: a state update, or a call of one of the
  host's callbacks, each of which the host may have left out.
\<close>

datatype host_call =
    FilterChange jsval
  | PageChange jsval jsval
  | Change obj jsval

datatype effect = StateSet obj | Called host_call

record host_callbacks =
  has_onFilterChange :: bool
  has_onPageChange :: bool
  has_onChange :: bool

type_synonym world = "obj \<times> effect list"

text \<open>
  Modelled from the spec: \<open>useState\<close> and \<open>useTable\<close> of the table package's own hooks
  are not among the files at hand. The spec gives the state store one semantics, the
  shallow merge of the patch onto the state, which is the reducer of \<open>hooks.ts\<close> above;
  \<open>setTableState\<close> is its dispatch, applied at once.
\<close>

definition setTableState :: "action \<Rightarrow> world \<Rightarrow> world" where
  "setTableState act w =
     (let state' = useState_reducer (fst w) act in (state', snd w @ [StateSet state']))"

definition optional_call :: "bool \<Rightarrow> host_call \<Rightarrow> world \<Rightarrow> world" where
  "optional_call present call w = (if present then (fst w, snd w @ [Called call]) else w)"

text \<open>\<open>tableState.pagination\<close>, an object by the type of the table state.\<close>

definition state_pagination :: "obj \<Rightarrow> obj" where
  "state_pagination tableState = spread_value (obj_get tableState ''pagination'')"

definition tableProps_onChange ::
  "host_callbacks \<Rightarrow> obj \<Rightarrow> obj \<Rightarrow> jsval \<Rightarrow> world \<Rightarrow> world" where
  "tableProps_onChange props tableState pagination filters w =
     (let current = js_coalesce (obj_get pagination ''current'')
                      (obj_get (state_pagination tableState) ''current'');
          pageSize = js_coalesce (obj_get pagination ''pageSize'')
                       (obj_get (state_pagination tableState) ''pageSize'');
          w1 = setTableState
                 (Patch [''pagination'' \<mapsto>
                           JObj ((state_pagination tableState)
                                   (''current'' \<mapsto> current, ''pageSize'' \<mapsto> pageSize)),
                         ''filters'' \<mapsto> filters]) w;
          w2 = optional_call (has_onFilterChange props) (FilterChange filters) w1;
          w3 = optional_call (has_onPageChange props) (PageChange current pageSize) w2;
          w4 = optional_call (has_onChange props) (Change pagination filters) w3
      in w4)"

section \<open>Cell edits\<close>














section \<open>Auxiliary notions and example inputs\<close>

text \<open>Generating a render function and rendering one cell with it.\<close>

definition render_cell ::
  "js_error + 'r render \<Rightarrow> jsval \<Rightarrow> obj \<Rightarrow> nat \<Rightarrow> js_error + 'r element" where
  "render_cell generated value record index =
     (case generated of Inl e \<Rightarrow> Inl e | Inr render \<Rightarrow> Inr (render value record index))"

text \<open>A string without white space at either end.\<close>

definition trimmed :: "string \<Rightarrow> bool" where
  "trimmed s = (s = [] \<or> (\<not> js_white (hd s) \<and> \<not> js_white (last s)))"




text \<open>
  An environment with one built-in component and one component of the host, both passing
  validation, and the inputs of the examples.
\<close>

definition example_env :: "string env" where
  "example_env =
     \<lparr>builtins = [''text'' \<mapsto> ''DTCText''],
      components = Some [''lib'' \<mapsto> [''comp'' \<mapsto> ''HostComp''] ],
      ajv = True,
      validateColumn = (\<lambda>schema component. []),
      validateProps = (\<lambda>columns. []),
      ext = JUndefined,
      editable = JBool False\<rparr>"


definition deprecated_column :: obj where
  "deprecated_column =
     [''key'' \<mapsto> JStr ''a'', ''ui:type'' \<mapsto> JStr ''text'',
      ''ui:props'' \<mapsto> JObj [''fontSize'' \<mapsto> JStr ''12''] ]"

definition text_column :: obj where
  "text_column =
     [''key'' \<mapsto> JStr ''a'', ''component'' \<mapsto> JStr ''text'', ''defaultValue'' \<mapsto> JStr ''-'']"

definition all_callbacks :: host_callbacks where
  "all_callbacks = \<lparr>has_onFilterChange = True, has_onPageChange = True, has_onChange = True\<rparr>"

definition example_state :: obj where
  "example_state =
     [''pagination'' \<mapsto> JObj [''current'' \<mapsto> JNum 1, ''pageSize'' \<mapsto> JNum 10],
      ''filters'' \<mapsto> JObj Map.empty]"


text \<open>A host predicate that holds of every record, and a host component's column.\<close>

definition every_row :: "obj \<Rightarrow> bool" where
  "every_row record = True"

definition host_column :: obj where
  "host_column =
     [''key'' \<mapsto> JStr ''b'', ''component'' \<mapsto> JStr ''lib::comp'', ''defaultValue'' \<mapsto> JNum 0]"

section \<open>Precedence of subtable rules\<close>






section \<open>Rewriting the deprecated column form\<close>

lemma snd_compat_column: "snd (compat_column c) = column_warnings c"
  by (simp add: compat_column_def column_warnings_def)

lemma compat_columns_eq:
  assumes "list_ex (\<lambda>c. js_truthy (obj_get c ''ui:type'') \<or> js_truthy (obj_get c ''ui:props''))
             columns"
  shows "compat_columns columns console =
     (map (\<lambda>c. if obj_has c ''ui:type'' \<or> obj_has c ''ui:props'' then rewrite_column c else c)
        columns,
      console @ concat (map column_warnings columns))"
proof -
  have t: "js_truthy (js_or a b) = (js_truthy a \<or> js_truthy b)" for a b
    by (simp add: js_or_def)
  have f: "(\<lambda>c. fst (compat_column c)) =
      (\<lambda>c. if obj_has c ''ui:type'' \<or> obj_has c ''ui:props'' then rewrite_column c else c)"
    by (rule ext) (simp add: compat_column_def)
  from assms show ?thesis
    by (simp add: compat_columns_def t f snd_compat_column)
qed

lemma snd_DripTable:
  "snd (DripTable env e columns keys console) = snd (compat_columns columns console)"
  by (simp add: DripTable_def Let_def split: prod.splits sum.splits)

lemma render_times_console:
  assumes "list_ex (\<lambda>c. js_truthy (obj_get c ''ui:type'') \<or> js_truthy (obj_get c ''ui:props''))
             columns"
  shows "render_times n env e columns keys console =
     console @ concat (replicate n (concat (map column_warnings columns)))"
proof (induction n arbitrary: console)
  case 0
  show ?case by simp
next
  case (Suc n)
  show ?case
    by (simp add: snd_DripTable compat_columns_eq [OF assms] Suc.IH)
qed

lemma rewrite_column_fields:
  "obj_get (rewrite_column c) ''component''
     = js_or (obj_get c ''ui:type'') (obj_get c ''component'')
   \<and> obj_get (rewrite_column c) ''options''
     = js_or (js_or (obj_get c ''ui:props'') (obj_get c ''options'')) JUndefined
   \<and> \<not> obj_has (rewrite_column c) ''ui:type'' \<and> \<not> obj_has (rewrite_column c) ''ui:props''
   \<and> (\<forall>k. k \<notin> {''ui:type'', ''ui:props'', ''options'', ''component''}
         \<longrightarrow> rewrite_column c k = c k)"
  by (simp add: rewrite_column_def obj_get_def obj_has_def restrict_map_def)

text \<open>
  Claim C2, as the code has it. When a column of the schema has a truthy \<open>ui:type\<close> or
  \<open>ui:props\<close>, every column with one of the two keys is rewritten before the props are
  validated and the columns generated: \<open>component\<close> is \<open>ui:type || component\<close>, \<open>options\<close>
  is \<open>ui:props || options || undefined\<close>, the two deprecated keys are gone and every other
  field is kept. Each render writes one warning for each deprecated key the column has, so
  at least one for such a column, and \<open>n\<close> renders write them \<open>n\<close> times.
\<close>

theorem deprecated_columns_rewritten:
  assumes "c \<in> set columns"
    and "js_truthy (obj_get c ''ui:type'') \<or> js_truthy (obj_get c ''ui:props'')"
  shows "compat_columns columns console =
           (map (\<lambda>c. if obj_has c ''ui:type'' \<or> obj_has c ''ui:props'' then rewrite_column c else c)
              columns,
            console @ concat (map column_warnings columns))
       \<and> DripTable env e columns keys console =
           (let columns' = map (\<lambda>c. if obj_has c ''ui:type'' \<or> obj_has c ''ui:props''
                                   then rewrite_column c else c) columns;
                console' = console @ concat (map column_warnings columns)
            in if ajv env \<and> validateProps env columns' \<noteq> []
               then (Inr (PropsError (''Props validate failed: '' @ validateProps env columns')),
                     console')
               else (case tableProps_columns env e columns' keys of
                       Inl err \<Rightarrow> (Inl err, console')
                     | Inr cs \<Rightarrow> (Inr (TableView cs), console')))
       \<and> obj_get (rewrite_column c) ''component''
           = js_or (obj_get c ''ui:type'') (obj_get c ''component'')
       \<and> obj_get (rewrite_column c) ''options''
           = js_or (js_or (obj_get c ''ui:props'') (obj_get c ''options'')) JUndefined
       \<and> \<not> obj_has (rewrite_column c) ''ui:type'' \<and> \<not> obj_has (rewrite_column c) ''ui:props''
       \<and> (\<forall>k. k \<notin> {''ui:type'', ''ui:props'', ''options'', ''component''}
              \<longrightarrow> rewrite_column c k = c k)
       \<and> column_warnings c =
           (if obj_has c ''ui:type'' then [warn_ui_type (obj_get c ''key'')] else [])
           @ (if obj_has c ''ui:props'' then [warn_ui_props (obj_get c ''key'')] else [])
       \<and> column_warnings c \<noteq> []
       \<and> render_times n env e columns keys console =
           console @ concat (replicate n (concat (map column_warnings columns)))"
proof -
  from assms have ex:
    "list_ex (\<lambda>c. js_truthy (obj_get c ''ui:type'') \<or> js_truthy (obj_get c ''ui:props'')) columns"
    by (auto simp: list_ex_iff)
  have 1: "compat_columns columns console =
           (map (\<lambda>c. if obj_has c ''ui:type'' \<or> obj_has c ''ui:props'' then rewrite_column c else c)
              columns,
            console @ concat (map column_warnings columns))"
    by (rule compat_columns_eq [OF ex])
  have 2: "DripTable env e columns keys console =
           (let columns' = map (\<lambda>c. if obj_has c ''ui:type'' \<or> obj_has c ''ui:props''
                                   then rewrite_column c else c) columns;
                console' = console @ concat (map column_warnings columns)
            in if ajv env \<and> validateProps env columns' \<noteq> []
               then (Inr (PropsError (''Props validate failed: '' @ validateProps env columns')),
                     console')
               else (case tableProps_columns env e columns' keys of
                       Inl err \<Rightarrow> (Inl err, console')
                     | Inr cs \<Rightarrow> (Inr (TableView cs), console')))"
    by (simp add: DripTable_def compat_columns_eq [OF ex] Let_def)
  have 3: "column_warnings c =
           (if obj_has c ''ui:type'' then [warn_ui_type (obj_get c ''key'')] else [])
           @ (if obj_has c ''ui:props'' then [warn_ui_props (obj_get c ''key'')] else [])"
    by (simp add: column_warnings_def Let_def)
  from assms(2) have 4: "column_warnings c \<noteq> []"
    by (auto simp: column_warnings_def Let_def obj_has_def obj_get_def split: option.splits)
  have 5: "render_times n env e columns keys console =
           console @ concat (replicate n (concat (map column_warnings columns)))"
    by (rule render_times_console [OF ex])
  from 1 2 3 4 5 rewrite_column_fields [of c] show ?thesis
    by (intro conjI) blast+
qed

text \<open>
  The example of the spec: the column with \<open>ui:type\<close> \<open>text\<close> and \<open>ui:props\<close>
  \<open>{fontSize: "12"}\<close> is rewritten to \<open>component\<close> \<open>text\<close> and \<open>options\<close>
  \<open>{fontSize: "12"}\<close>, and one render writes two warnings for its key.
\<close>

theorem deprecated_columns_rewritten_witness:
  "obj_get (rewrite_column deprecated_column) ''component'' = JStr ''text''
   \<and> obj_get (rewrite_column deprecated_column) ''options'' = JObj [''fontSize'' \<mapsto> JStr ''12'']
   \<and> \<not> obj_has (rewrite_column deprecated_column) ''ui:type''
   \<and> render_times 1 example_env JUndefined [deprecated_column] [] []
       = [warn_ui_type (JStr ''a''), warn_ui_props (JStr ''a'')]"
proof -
  have m: "deprecated_column \<in> set [deprecated_column]"
    by simp
  have t: "js_truthy (obj_get deprecated_column ''ui:type'')
      \<or> js_truthy (obj_get deprecated_column ''ui:props'')"
    by (simp add: deprecated_column_def obj_get_def)
  have g: "obj_get deprecated_column ''ui:type'' = JStr ''text''"
    "obj_get deprecated_column ''ui:props'' = JObj [''fontSize'' \<mapsto> JStr ''12'']"
    "obj_get deprecated_column ''key'' = JStr ''a''"
    "obj_has deprecated_column ''ui:type''" "obj_has deprecated_column ''ui:props''"
    by (simp_all add: deprecated_column_def obj_get_def obj_has_def)
  note r = deprecated_columns_rewritten [OF m t, of "[]" example_env JUndefined "[]" 1,
      THEN conjunct2, THEN conjunct2]
  note r_component = r [THEN conjunct1]
  note r_options = r [THEN conjunct2, THEN conjunct1]
  note r_ui_type = r [THEN conjunct2, THEN conjunct2, THEN conjunct1]
  note r_warnings = r [THEN conjunct2, THEN conjunct2, THEN conjunct2, THEN conjunct2,
      THEN conjunct2, THEN conjunct1]
  note r_console = r [THEN conjunct2, THEN conjunct2, THEN conjunct2, THEN conjunct2,
      THEN conjunct2, THEN conjunct2, THEN conjunct2]
  from r_component have 1: "obj_get (rewrite_column deprecated_column) ''component'' = JStr ''text''"
    by (simp add: g js_or_def)
  from r_options have 2: "obj_get (rewrite_column deprecated_column) ''options''
      = JObj [''fontSize'' \<mapsto> JStr ''12'']"
    by (simp add: g js_or_def)
  note 3 = r_ui_type
  from r_warnings have w: "column_warnings deprecated_column
      = [warn_ui_type (JStr ''a''), warn_ui_props (JStr ''a'')]"
    by (simp add: g)
  from r_console have 4: "render_times 1 example_env JUndefined [deprecated_column] [] []
      = [warn_ui_type (JStr ''a''), warn_ui_props (JStr ''a'')]"
    by (simp add: w)
  from 1 2 3 4 show ?thesis by blast
qed

text \<open>
  Against claim C2 as stated: rendering twice the schema whose one column has the key
  \<open>a\<close> and a \<open>ui:type\<close> leaves two warnings for that key on the console, not one.
\<close>

theorem deprecation_warning_counterexample:
  "render_times 2 example_env JUndefined
      [ [''key'' \<mapsto> JStr ''a'', ''ui:type'' \<mapsto> JStr ''text''] ] [] []
     = [warn_ui_type (JStr ''a''), warn_ui_type (JStr ''a'')]"
  by (simp add: numeral_2_eq_2 DripTable_def compat_columns_def compat_column_def
      column_warnings_def obj_get_def obj_has_def js_or_def Let_def split: sum.splits)

section \<open>Unresolved components\<close>

lemma map_throwing_all:
  "\<forall>x\<in>set xs. \<not> isl (f x) \<Longrightarrow> map_throwing f xs = Inr (map (\<lambda>x. projr (f x)) xs)"
proof (induction xs)
  case Nil
  show ?case by simp
next
  case (Cons x xs)
  then obtain y where "f x = Inr y"
    by (cases "f x") auto
  with Cons show ?case by simp
qed

lemma unknown_renderGenerator:
  assumes "obj_get schema ''component'' = JStr name"
    and "builtins env name = None" and "extra_component env name = None"
  shows "renderGenerator env schema = Inr (unknown_component schema)
       \<and> renderGenerator_edit env schema = Inr (unknown_component schema)"
proof -
  from assms(1) have h: "obj_has schema ''component''"
    by (auto simp: obj_get_def obj_has_def split: option.splits)
  from h assms show ?thesis
    by (simp add: renderGenerator_def renderGenerator_edit_def)
qed

text \<open>
  In \<open>drip-table/index.tsx\<close> and in the revision with cell editing, a column whose
  component name is in neither table gets a render function that returns the \<open>div\<close> with
  the name, the column is generated without an exception, and when no other column throws
  the whole column list is generated, each column by its own \<open>columnGenerator\<close>.
\<close>

lemma unknown_component_current:
  assumes "obj_get schema ''component'' = JStr name"
    and "builtins env name = None" and "extra_component env name = None"
  shows "render_cell (renderGenerator env schema) value record index
           = Inr (ErrorDiv (''Unknown column component: '' @ name))
       \<and> render_cell (renderGenerator_edit env schema) value record index
           = Inr (ErrorDiv (''Unknown column component: '' @ name))
       \<and> \<not> isl (columnGenerator env ellipsis schema)
       \<and> ((\<forall>c\<in>set columns. c \<noteq> schema \<longrightarrow> \<not> isl (columnGenerator env ellipsis c)) \<longrightarrow>
            tableProps_columns env ellipsis columns keys
              = Inr (map (\<lambda>c. projr (columnGenerator env ellipsis c))
                       (filter (column_visible keys) columns)))"
proof (intro conjI impI)
  note u = unknown_renderGenerator [OF assms]
  show "render_cell (renderGenerator env schema) value record index
      = Inr (ErrorDiv (''Unknown column component: '' @ name))"
    by (simp add: u render_cell_def unknown_component_def assms(1))
  show "render_cell (renderGenerator_edit env schema) value record index
      = Inr (ErrorDiv (''Unknown column component: '' @ name))"
    by (simp add: u render_cell_def unknown_component_def assms(1))
  show g: "\<not> isl (columnGenerator env ellipsis schema)"
    by (simp add: columnGenerator_def u)
  assume "\<forall>c\<in>set columns. c \<noteq> schema \<longrightarrow> \<not> isl (columnGenerator env ellipsis c)"
  with g have "\<forall>c\<in>set (filter (column_visible keys) columns).
      \<not> isl (columnGenerator env ellipsis c)"
    by auto
  then show "tableProps_columns env ellipsis columns keys
      = Inr (map (\<lambda>c. projr (columnGenerator env ellipsis c)) (filter (column_visible keys) columns))"
    unfolding tableProps_columns_def by (rule map_throwing_all)
qed

text \<open>
  In the earlier revision a \<open>ui:type\<close> that is in neither table gets the render function
  that returns \<open>JSON.stringify(value)\<close>.
\<close>

lemma unknown_component_earlier:
  assumes "obj_get schema ''ui:type'' = JStr name"
    and "builtins env name = None" and "extra_component env name = None"
  shows "render_cell (renderGenerator_legacy env schema) value record index
           = Inr (JsonStringify value)"
  using assms
  by (simp add: render_cell_def renderGenerator_legacy_def legacy_render_def Let_def)

text \<open>
  Claim C3 at the name \<open>nope\<close>, which is in neither table of the example environment. The
  render function of \<open>drip-table/index.tsx\<close> returns the placeholder with the name. The
  render function of the earlier revision returns \<open>JSON.stringify\<close> of the cell's value,
  which is not the placeholder and does not depend on the name.
\<close>

theorem unknown_component_nope:
  "render_cell
      (renderGenerator example_env [''key'' \<mapsto> JStr ''a'', ''component'' \<mapsto> JStr ''nope''])
      (JStr ''x'') Map.empty 0
     = Inr (ErrorDiv ''Unknown column component: nope'')
   \<and> render_cell
      (renderGenerator_legacy example_env [''key'' \<mapsto> JStr ''a'', ''ui:type'' \<mapsto> JStr ''nope''])
      (JStr ''x'') Map.empty 0
     = Inr (JsonStringify (JStr ''x''))
   \<and> render_cell
      (renderGenerator_legacy example_env [''key'' \<mapsto> JStr ''a'', ''ui:type'' \<mapsto> JStr ''nope''])
      (JStr ''x'') Map.empty 0
     \<noteq> Inr (ErrorDiv ''Unknown column component: nope'')"
  by (simp add: render_cell_def renderGenerator_def renderGenerator_legacy_def legacy_render_def
      unknown_component_def Let_def obj_get_def obj_has_def example_env_def extra_component_def)

section \<open>Shallow merge of the state store\<close>

lemma map_add_case: "(m ++ n) k = (case n k of None \<Rightarrow> m k | Some v \<Rightarrow> Some v)"
  by (simp add: map_add_def)

text \<open>
  Claim C4. For every state and every patch, given directly or returned by an updater
  applied to the state, \<open>useState\<close>'s reducer yields the shallow merge: a top-level field
  named in the patch takes the patch's value as it is, nested objects included, and every
  other field keeps the state's value.
\<close>

theorem useState_shallow_merge:
  "useState_reducer s (Patch p) = s ++ p
   \<and> useState_reducer s (Updater f) = s ++ f s
   \<and> useState_reducer s (Patch p) k = (case p k of None \<Rightarrow> s k | Some v \<Rightarrow> Some v)
   \<and> useState_reducer s (Updater f) k = (case f s k of None \<Rightarrow> s k | Some v \<Rightarrow> Some v)"
  by (simp add: useState_reducer_def map_add_case)

text \<open>
  The example of the spec, and a patch whose \<open>pagination\<close> has the current page only: the
  page size of the state is lost.
\<close>

theorem useState_shallow_merge_witness:
  "useState_reducer example_state
      (Patch [''pagination'' \<mapsto> JObj [''current'' \<mapsto> JNum 2, ''pageSize'' \<mapsto> JNum 10] ])
      ''pagination''
     = Some (JObj [''current'' \<mapsto> JNum 2, ''pageSize'' \<mapsto> JNum 10])
   \<and> useState_reducer example_state
      (Patch [''pagination'' \<mapsto> JObj [''current'' \<mapsto> JNum 2, ''pageSize'' \<mapsto> JNum 10] ])
      ''filters''
     = Some (JObj Map.empty)
   \<and> useState_reducer example_state
      (Updater (\<lambda>state. [''pagination'' \<mapsto> JObj [''current'' \<mapsto> JNum 2] ])) ''pagination''
     = Some (JObj [''current'' \<mapsto> JNum 2])"
  using
    useState_shallow_merge [of example_state
      "[''pagination'' \<mapsto> JObj [''current'' \<mapsto> JNum 2, ''pageSize'' \<mapsto> JNum 10] ]"
      "\<lambda>state. [''pagination'' \<mapsto> JObj [''current'' \<mapsto> JNum 2] ]" "''pagination''"]
    useState_shallow_merge [of example_state
      "[''pagination'' \<mapsto> JObj [''current'' \<mapsto> JNum 2, ''pageSize'' \<mapsto> JNum 10] ]"
      "\<lambda>state. [''pagination'' \<mapsto> JObj [''current'' \<mapsto> JNum 2] ]" "''filters''"]
  by (simp add: example_state_def)

section \<open>Expandable rows\<close>

lemma expandable_rowExpandable_iff:
  "expandable_rowExpandable re sk record \<longleftrightarrow>
      (\<exists>f. re = Some f \<and> f record)
      \<or> (\<exists>k xs. sk = Some k \<and> obj_get record k = JArr xs \<and> 0 < length xs)"
proof -
  have arr: "(js_isArray v \<and> 0 < js_array_length v) = (\<exists>xs. v = JArr xs \<and> 0 < length xs)" for v
    by (cases v) simp_all
  show ?thesis
    by (cases re; cases sk) (auto simp: expandable_rowExpandable_def Let_def arr)
qed

text \<open>
  Claim C5, as the code has it. When the schema has a subtable or the host gives an
  \<open>expandedRowRender\<close>, the table marks a row expandable exactly when the host's predicate
  is given and holds of the record, or the schema has a subtable and the record's value at
  the subtable's \<open>dataSourceKey\<close> is an array that is not empty. A value there that is not
  an array makes the subtable contribute nothing: the answer is the host predicate's
  alone, and the function has no failing branch. With neither a subtable nor an
  \<open>expandedRowRender\<close> the table gets no \<open>expandable\<close> object and marks no row.
\<close>

theorem row_expandable_marked:
  "(sk \<noteq> None \<or> her \<longrightarrow>
      row_expandable re sk her record
        = Some ((\<exists>f. re = Some f \<and> f record)
                \<or> (\<exists>k xs. sk = Some k \<and> obj_get record k = JArr xs \<and> 0 < length xs)))
   \<and> (\<forall>k. sk = Some k \<and> \<not> js_isArray (obj_get record k) \<longrightarrow>
         row_expandable re sk her record = Some (\<exists>f. re = Some f \<and> f record))
   \<and> (sk = None \<and> \<not> her \<longrightarrow> row_expandable re sk her record = None)"
proof -
  have na: "\<not> js_isArray v \<Longrightarrow> v \<noteq> JArr xs" for v xs
    by (cases v) simp_all
  have 1: "sk \<noteq> None \<or> her \<longrightarrow>
      row_expandable re sk her record
        = Some ((\<exists>f. re = Some f \<and> f record)
                \<or> (\<exists>k xs. sk = Some k \<and> obj_get record k = JArr xs \<and> 0 < length xs))"
    by (simp add: row_expandable_def tableProps_expandable_def expandable_rowExpandable_iff)
  have 2: "\<forall>k. sk = Some k \<and> \<not> js_isArray (obj_get record k) \<longrightarrow>
      row_expandable re sk her record = Some (\<exists>f. re = Some f \<and> f record)"
    by (auto simp: row_expandable_def tableProps_expandable_def expandable_rowExpandable_iff
        dest: na)
  have 3: "sk = None \<and> \<not> her \<longrightarrow> row_expandable re sk her record = None"
    by (simp add: row_expandable_def tableProps_expandable_def)
  from 1 2 3 show ?thesis by blast
qed

text \<open>
  With the subtable's data under \<open>children\<close>: a string there or an empty array leaves the
  row not expandable, an array of one record makes it expandable, and so does a host
  predicate that holds, with an \<open>expandedRowRender\<close> or with the subtable.
\<close>

theorem row_expandable_marked_witness:
  "row_expandable None (Some ''children'') False [''children'' \<mapsto> JStr ''none''] = Some False
   \<and> row_expandable None (Some ''children'') False [''children'' \<mapsto> JArr [] ] = Some False
   \<and> row_expandable None (Some ''children'') False [''children'' \<mapsto> JArr [JObj Map.empty] ]
       = Some True
   \<and> row_expandable (Some every_row) None True [''children'' \<mapsto> JStr ''none''] = Some True
   \<and> row_expandable (Some every_row) (Some ''children'') False [''children'' \<mapsto> JStr ''none'']
       = Some True"
proof -
  let ?r = "[''children'' \<mapsto> JStr ''none''] :: obj"
  have s: "Some ''children'' \<noteq> None \<or> False" and e: "None \<noteq> None \<or> True"
    by simp_all
  have h: "Some ''children'' = Some ''children'' \<and> \<not> js_isArray (obj_get ?r ''children'')"
    by (simp add: obj_get_def)
  from row_expandable_marked [of "Some ''children''" False None ?r, THEN conjunct2, THEN conjunct1,
      rule_format, OF h]
  have 1: "row_expandable None (Some ''children'') False ?r = Some False"
    by simp
  from row_expandable_marked [of "Some ''children''" False None "[''children'' \<mapsto> JArr [] ]",
      THEN conjunct1, rule_format, OF s]
  have 2: "row_expandable None (Some ''children'') False [''children'' \<mapsto> JArr [] ] = Some False"
    by (simp add: obj_get_def)
  from row_expandable_marked [of "Some ''children''" False None
      "[''children'' \<mapsto> JArr [JObj Map.empty] ]", THEN conjunct1, rule_format, OF s]
  have 3: "row_expandable None (Some ''children'') False [''children'' \<mapsto> JArr [JObj Map.empty] ]
      = Some True"
    by (simp add: obj_get_def)
  from row_expandable_marked [of None True "Some every_row" ?r, THEN conjunct1, rule_format, OF e]
  have 4: "row_expandable (Some every_row) None True ?r = Some True"
    by (simp add: every_row_def)
  from row_expandable_marked [of "Some ''children''" False "Some every_row" ?r,
      THEN conjunct2, THEN conjunct1, rule_format, OF h]
  have 5: "row_expandable (Some every_row) (Some ''children'') False ?r = Some True"
    by (simp add: every_row_def)
  from 1 2 3 4 5 show ?thesis by blast
qed

text \<open>
  Against claim C5 as stated: the host gives a predicate that holds of the record and
  nothing else, the schema has no subtable, and the table gets no \<open>expandable\<close> object, so
  the row is not marked.
\<close>

theorem row_expandable_counterexample:
  "every_row [''name'' \<mapsto> JStr ''a'']
   \<and> tableProps_expandable (Some every_row) None False = None
   \<and> row_expandable (Some every_row) None False [''name'' \<mapsto> JStr ''a''] = None"
  by (simp add: every_row_def tableProps_expandable_def row_expandable_def)

section \<open>Width normalization\<close>

lemma dropWhile_id: "xs = [] \<or> \<not> P (hd xs) \<Longrightarrow> dropWhile P xs = xs"
  by (cases xs) auto

lemma js_trim_trimmed: "trimmed s \<Longrightarrow> js_trim s = s"
  unfolding trimmed_def js_trim_def
  by (cases "s = []") (simp_all add: dropWhile_id hd_rev)

lemma trimmed_js_trim: "trimmed (js_trim s)"
proof -
  define t where "t = dropWhile js_white s"
  define u where "u = dropWhile js_white (rev t)"
  have tu: "js_trim s = rev u"
    by (simp add: js_trim_def t_def u_def)
  show ?thesis
  proof (cases "u = []")
    case True
    then show ?thesis by (simp add: tu trimmed_def)
  next
    case False
    then have l: "\<not> js_white (hd u)"
      unfolding u_def by (rule hd_dropWhile)
    have "rev t = takeWhile js_white (rev t) @ u"
      by (simp add: u_def)
    then have "t = rev u @ rev (takeWhile js_white (rev t))"
      by (metis rev_append rev_rev_ident)
    with False have "hd (rev u) = hd t" and "t \<noteq> []"
      by (metis hd_append2 rev_is_Nil_conv, metis Nil_is_append_conv rev_is_Nil_conv)
    moreover have "t \<noteq> [] \<Longrightarrow> \<not> js_white (hd t)"
      unfolding t_def by (rule hd_dropWhile)
    ultimately have "\<not> js_white (hd (rev u))"
      by simp
    with l False show ?thesis
      by (simp add: tu trimmed_def last_rev)
  qed
qed

lemma digit_not_white: "is_digit c \<Longrightarrow> \<not> js_white c"
  by (auto simp: is_digit_def js_white_def)

lemma x_not_white: "\<not> js_white CHR ''x''"
  by (simp add: js_white_def)

lemma all_digits_px_trimmed: "all_digits w \<Longrightarrow> trimmed (w @ ''px'')"
  by (cases w) (auto simp: all_digits_def trimmed_def digit_not_white x_not_white)

lemma not_all_digits_px: "\<not> all_digits (w @ ''px'')"
  by (simp add: all_digits_def is_digit_def)

text \<open>
  Claim C6. The width of a column is its value converted to a string and trimmed, with
  \<open>px\<close> appended exactly when that string is one or more digits and nothing else;
  normalizing the result again changes nothing. \<open>"120"\<close> and the number 120 give
  \<open>"120px"\<close>, and \<open>"120px"\<close> stays as it is.
\<close>

theorem columnGenerator_width_idempotent:
  "columnGenerator_width w =
     (if all_digits (js_trim (js_String w)) then js_trim (js_String w) @ ''px''
      else js_trim (js_String w))
   \<and> columnGenerator_width (JStr (columnGenerator_width w)) = columnGenerator_width w
   \<and> columnGenerator_width (JStr ''120'') = ''120px''
   \<and> columnGenerator_width (JStr ''120px'') = ''120px''
   \<and> columnGenerator_width (JNum 120) = ''120px''"
proof -
  have 1: "columnGenerator_width w =
     (if all_digits (js_trim (js_String w)) then js_trim (js_String w) @ ''px''
      else js_trim (js_String w))"
    by (simp add: columnGenerator_width_def Let_def)
  have 2: "columnGenerator_width (JStr (columnGenerator_width w)) = columnGenerator_width w"
  proof (cases "all_digits (js_trim (js_String w))")
    case True
    then show ?thesis
      by (simp add: columnGenerator_width_def Let_def js_trim_trimmed all_digits_px_trimmed
          not_all_digits_px)
  next
    case False
    then show ?thesis
      by (simp add: columnGenerator_width_def Let_def js_trim_trimmed trimmed_js_trim)
  qed
  have t1: "js_trim ''120'' = ''120''" and t2: "js_trim ''120px'' = ''120px''"
    by (simp_all add: js_trim_def js_white_def)
  have d: "digits_of_nat 120 = ''120''"
    by (simp add: digits_of_nat.simps digit_char_def)
  have 3: "columnGenerator_width (JStr ''120'') = ''120px''"
    by (simp add: columnGenerator_width_def Let_def t1 all_digits_def is_digit_def)
  have 4: "columnGenerator_width (JStr ''120px'') = ''120px''"
    by (simp add: columnGenerator_width_def Let_def t2 all_digits_def is_digit_def)
  have 5: "columnGenerator_width (JNum 120) = ''120px''"
    by (simp add: columnGenerator_width_def Let_def d t1 all_digits_def is_digit_def)
  from 1 2 3 4 5 show ?thesis by blast
qed

text \<open>A width with blanks around the digits, and a width that is not a number.\<close>

theorem columnGenerator_width_idempotent_witness:
  "columnGenerator_width (JStr '' 12 '') = ''12px''
   \<and> columnGenerator_width (JStr (columnGenerator_width (JStr '' 12 ''))) = ''12px''
   \<and> columnGenerator_width (JStr ''50%'') = ''50%''
   \<and> columnGenerator_width JUndefined = ''undefined''"
proof -
  have t: "js_trim '' 12 '' = ''12''" "js_trim ''50%'' = ''50%''"
    "js_trim ''undefined'' = ''undefined''"
    by (simp_all add: js_trim_def js_white_def)
  have a: "all_digits ''12''" "\<not> all_digits ''50%''" "\<not> all_digits ''undefined''"
    by (simp_all add: all_digits_def is_digit_def)
  from columnGenerator_width_idempotent [of "JStr '' 12 ''", THEN conjunct1]
  have 1: "columnGenerator_width (JStr '' 12 '') = ''12px''"
    by (simp add: t a)
  from columnGenerator_width_idempotent [of "JStr '' 12 ''", THEN conjunct2, THEN conjunct1] 1
  have 2: "columnGenerator_width (JStr (columnGenerator_width (JStr '' 12 ''))) = ''12px''"
    by simp
  from columnGenerator_width_idempotent [of "JStr ''50%''", THEN conjunct1]
  have 3: "columnGenerator_width (JStr ''50%'') = ''50%''"
    by (simp add: t a)
  from columnGenerator_width_idempotent [of JUndefined, THEN conjunct1]
  have 4: "columnGenerator_width JUndefined = ''undefined''"
    by (simp add: t a)
  from 1 2 3 4 show ?thesis by simp
qed

section \<open>Synthetic row keys\<close>

lemma tableProps_dataSource_nth:
  "i < length ds \<Longrightarrow> tableProps_dataSource rk ds ! i = dataSource_item rk (ds ! i) i"
  by (simp add: tableProps_dataSource_def nth_enumerate_eq)

text \<open>
  Claim C7. The rendered data source has as many records as the host's. Under the row key
  field, which is \<open>key\<close> when the schema names none and the schema's \<open>rowKey\<close> when it
  names one, a record that has no value there gets its index, a record that has one keeps
  it, and no other field of any record changes.
\<close>

theorem tableProps_dataSource_row_keys:
  "length (tableProps_dataSource rk ds) = length ds
   \<and> (\<forall>i<length ds.
         obj_get (tableProps_dataSource None ds ! i) ''key'' =
           (if obj_get (ds ! i) ''key'' = JUndefined then JNum (int i)
            else obj_get (ds ! i) ''key'')
         \<and> (\<forall>k'. k' \<noteq> ''key'' \<longrightarrow> (tableProps_dataSource None ds ! i) k' = (ds ! i) k'))
   \<and> (\<forall>i<length ds.
         obj_get (tableProps_dataSource (Some k) ds ! i) k =
           (if obj_get (ds ! i) k = JUndefined then JNum (int i) else obj_get (ds ! i) k)
         \<and> (\<forall>k'. k' \<noteq> k \<longrightarrow> (tableProps_dataSource (Some k) ds ! i) k' = (ds ! i) k'))"
proof -
  have u: "js_is_undefined v = (v = JUndefined)" for v
    by (cases v) simp_all
  have len: "length (tableProps_dataSource rk ds) = length ds"
    by (simp add: tableProps_dataSource_def)
  show ?thesis
    by (simp add: len tableProps_dataSource_nth dataSource_item_def Let_def obj_get_def u
        schema_rowKey_def)
qed

text \<open>
  The example of the spec: two records with a name only get the keys 0 and 1 and keep
  their names. With the row key \<open>id\<close>, the record that has an \<open>id\<close> keeps it, the one
  that has none gets its index under \<open>id\<close>, and \<open>key\<close> is left as it was in both. A key
  that is \<open>null\<close> is kept.
\<close>

theorem tableProps_dataSource_row_keys_witness:
  "obj_get (tableProps_dataSource None [ [''name'' \<mapsto> JStr ''a''], [''name'' \<mapsto> JStr ''b''] ] ! 0) ''key''
     = JNum 0
   \<and> obj_get (tableProps_dataSource None [ [''name'' \<mapsto> JStr ''a''], [''name'' \<mapsto> JStr ''b''] ] ! 1) ''key''
     = JNum 1
   \<and> obj_get (tableProps_dataSource None [ [''name'' \<mapsto> JStr ''a''], [''name'' \<mapsto> JStr ''b''] ] ! 1) ''name''
     = JStr ''b''
   \<and> obj_get (tableProps_dataSource (Some ''id'') [ [''id'' \<mapsto> JStr ''x''], [''key'' \<mapsto> JStr ''k''] ] ! 0) ''id''
     = JStr ''x''
   \<and> obj_get (tableProps_dataSource (Some ''id'') [ [''id'' \<mapsto> JStr ''x''], [''key'' \<mapsto> JStr ''k''] ] ! 1) ''id''
     = JNum 1
   \<and> obj_get (tableProps_dataSource (Some ''id'') [ [''id'' \<mapsto> JStr ''x''], [''key'' \<mapsto> JStr ''k''] ] ! 1) ''key''
     = JStr ''k''
   \<and> obj_get (tableProps_dataSource (Some ''id'') [ [''id'' \<mapsto> JStr ''x''], [''key'' \<mapsto> JStr ''k''] ] ! 0) ''key''
     = JUndefined
   \<and> obj_get (tableProps_dataSource None [ [''key'' \<mapsto> JNull] ] ! 0) ''key'' = JNull"
proof -
  let ?ds = "[ [''name'' \<mapsto> JStr ''a''], [''name'' \<mapsto> JStr ''b''] ] :: obj list"
  let ?es = "[ [''id'' \<mapsto> JStr ''x''], [''key'' \<mapsto> JStr ''k''] ] :: obj list"
  let ?ns = "[ [''key'' \<mapsto> JNull] ] :: obj list"
  have a: "(0::nat) < length ?ds" and b: "(1::nat) < length ?ds"
    and c: "(0::nat) < length ?es" and d: "(1::nat) < length ?es" and n: "(0::nat) < length ?ns"
    by simp_all
  note t = tableProps_dataSource_row_keys [of None ?ds, THEN conjunct2, THEN conjunct1, rule_format]
  note s = tableProps_dataSource_row_keys [of None ?es "''id''", THEN conjunct2, THEN conjunct2,
      rule_format]
  note z = tableProps_dataSource_row_keys [of None ?ns, THEN conjunct2, THEN conjunct1, rule_format]
  have k: "''name'' \<noteq> ''key''" and k': "''key'' \<noteq> ''id''"
    by simp_all
  from t [OF a, THEN conjunct1]
  have 1: "obj_get (tableProps_dataSource None ?ds ! 0) ''key'' = JNum 0"
    by (simp add: obj_get_def)
  from t [OF b, THEN conjunct1]
  have 2: "obj_get (tableProps_dataSource None ?ds ! 1) ''key'' = JNum 1"
    by (simp add: obj_get_def)
  from t [OF b, THEN conjunct2, rule_format, OF k]
  have 3: "obj_get (tableProps_dataSource None ?ds ! 1) ''name'' = JStr ''b''"
    by (simp add: obj_get_def)
  from s [OF c, THEN conjunct1]
  have 4: "obj_get (tableProps_dataSource (Some ''id'') ?es ! 0) ''id'' = JStr ''x''"
    by (simp add: obj_get_def)
  from s [OF d, THEN conjunct1]
  have 5: "obj_get (tableProps_dataSource (Some ''id'') ?es ! 1) ''id'' = JNum 1"
    by (simp add: obj_get_def)
  from s [OF d, THEN conjunct2, rule_format, OF k']
  have 6: "obj_get (tableProps_dataSource (Some ''id'') ?es ! 1) ''key'' = JStr ''k''"
    by (simp add: obj_get_def)
  from s [OF c, THEN conjunct2, rule_format, OF k']
  have 7: "obj_get (tableProps_dataSource (Some ''id'') ?es ! 0) ''key'' = JUndefined"
    by (simp add: obj_get_def)
  from z [OF n, THEN conjunct1]
  have 8: "obj_get (tableProps_dataSource None ?ns ! 0) ''key'' = JNull"
    by (simp add: obj_get_def)
  from 1 2 3 4 5 6 7 8 show ?thesis by blast
qed

section \<open>Order of the change callbacks\<close>

text \<open>
  Claim C8. On a pagination or filter change the handler first updates the table state,
  merging into it the new \<open>pagination\<close> (the state's, with the current page and the page
  size of the event, each falling back to the state's when the event has none) and the
  new \<open>filters\<close>; then it calls, of the callbacks the host gave, the filter-changed one,
  the page-changed one and the combined one, in this order.
\<close>

theorem onChange_order:
  "tableProps_onChange props ts pg f (s, tr) =
     (let current = js_coalesce (obj_get pg ''current'') (obj_get (state_pagination ts) ''current'');
          pageSize = js_coalesce (obj_get pg ''pageSize'')
                       (obj_get (state_pagination ts) ''pageSize'');
          s' = s ++ [''pagination'' \<mapsto>
                       JObj ((state_pagination ts)
                               (''current'' \<mapsto> current, ''pageSize'' \<mapsto> pageSize)),
                     ''filters'' \<mapsto> f]
      in (s',
          tr @ [StateSet s']
             @ (if has_onFilterChange props then [Called (FilterChange f)] else [])
             @ (if has_onPageChange props then [Called (PageChange current pageSize)] else [])
             @ (if has_onChange props then [Called (Change pg f)] else [])))"
  by (simp add: tableProps_onChange_def Let_def setTableState_def optional_call_def
      useState_reducer_def)

text \<open>
  A change to page 2 that names no page size, on the state of page 1 with ten rows a page,
  with all three callbacks given.
\<close>

theorem onChange_order_witness:
  "tableProps_onChange all_callbacks example_state [''current'' \<mapsto> JNum 2] (JObj Map.empty)
      (example_state, [])
   = (example_state
        ++ [''pagination'' \<mapsto> JObj [''current'' \<mapsto> JNum 2, ''pageSize'' \<mapsto> JNum 10],
            ''filters'' \<mapsto> JObj Map.empty],
      [StateSet (example_state
        ++ [''pagination'' \<mapsto> JObj [''current'' \<mapsto> JNum 2, ''pageSize'' \<mapsto> JNum 10],
            ''filters'' \<mapsto> JObj Map.empty]),
       Called (FilterChange (JObj Map.empty)),
       Called (PageChange (JNum 2) (JNum 10)),
       Called (Change [''current'' \<mapsto> JNum 2] (JObj Map.empty))])"
proof -
  have p: "state_pagination example_state = [''current'' \<mapsto> JNum 1, ''pageSize'' \<mapsto> JNum 10]"
    by (simp add: state_pagination_def example_state_def spread_value_def obj_get_def)
  have u: "[''current'' \<mapsto> JNum 1, ''pageSize'' \<mapsto> JNum 10](''current'' \<mapsto> JNum 2, ''pageSize'' \<mapsto> JNum 10)
      = [''current'' \<mapsto> JNum 2, ''pageSize'' \<mapsto> JNum (10::int)]"
    by (rule ext) simp
  show ?thesis
    by (subst onChange_order)
      (simp add: p u all_callbacks_def obj_get_def js_coalesce_def Let_def)
qed

section \<open>Cell edits leave the host's data alone\<close>













section \<open>The value handed to a renderer\<close>

text \<open>
  Claim C10. In \<open>drip-table/index.tsx\<close> and in the revision with cell editing alike, a
  column whose component resolves, to a built-in or to a component of the host, and
  passes validation renders every cell by that component, and the component's \<open>value\<close>
  is \<open>value ?? schema.defaultValue\<close>: the column's default when the projected value is
  \<open>null\<close> or \<open>undefined\<close>, the projected value otherwise. No cell is rendered by a
  component with any other value.
\<close>

theorem renderer_value_default:
  "(obj_has schema ''component''
      \<and> builtins env (js_String (obj_get schema ''component'')) = Some B
      \<and> (ajv env \<longrightarrow> validateColumn env schema B = []) \<longrightarrow>
      render_cell (renderGenerator env schema) value record index
        = Inr (Component B
            \<lparr>cp_value = js_coalesce value (obj_get schema ''defaultValue''),
             cp_data = record, cp_schema = schema, cp_ext = ext env, cp_index = index,
             cp_editable = JUndefined, cp_onChange = False\<rparr>)
      \<and> render_cell (renderGenerator_edit env schema) value record index
        = Inr (Component B
            \<lparr>cp_value = js_coalesce value (obj_get schema ''defaultValue''),
             cp_data = record, cp_schema = schema, cp_ext = ext env, cp_index = index,
             cp_editable = editable env, cp_onChange = True\<rparr>))
   \<and> (obj_get schema ''component'' = JStr name \<and> builtins env name = None
      \<and> extra_component env name = Some E
      \<and> (ajv env \<longrightarrow> validateColumn env schema E = []) \<longrightarrow>
      render_cell (renderGenerator env schema) value record index
        = Inr (Component E
            \<lparr>cp_value = js_coalesce value (obj_get schema ''defaultValue''),
             cp_data = record, cp_schema = schema, cp_ext = ext env, cp_index = index,
             cp_editable = JUndefined, cp_onChange = False\<rparr>)
      \<and> render_cell (renderGenerator_edit env schema) value record index
        = Inr (Component E
            \<lparr>cp_value = js_coalesce value (obj_get schema ''defaultValue''),
             cp_data = record, cp_schema = schema, cp_ext = ext env, cp_index = index,
             cp_editable = editable env, cp_onChange = True\<rparr>))
   \<and> (render_cell (renderGenerator env schema) value record index = Inr (Component c p)
      \<longrightarrow> cp_value p = js_coalesce value (obj_get schema ''defaultValue''))
   \<and> (render_cell (renderGenerator_edit env schema) value record index = Inr (Component c p)
      \<longrightarrow> cp_value p = js_coalesce value (obj_get schema ''defaultValue''))
   \<and> js_coalesce JNull d = d \<and> js_coalesce JUndefined d = d
   \<and> (\<not> js_nullish value \<longrightarrow> js_coalesce value d = value)"
proof -
  have h: "obj_get schema ''component'' = JStr name \<Longrightarrow> obj_has schema ''component''"
    by (auto simp: obj_get_def obj_has_def split: option.splits)
  have 1: "obj_has schema ''component''
      \<and> builtins env (js_String (obj_get schema ''component'')) = Some B
      \<and> (ajv env \<longrightarrow> validateColumn env schema B = []) \<longrightarrow>
      render_cell (renderGenerator env schema) value record index
        = Inr (Component B
            \<lparr>cp_value = js_coalesce value (obj_get schema ''defaultValue''),
             cp_data = record, cp_schema = schema, cp_ext = ext env, cp_index = index,
             cp_editable = JUndefined, cp_onChange = False\<rparr>)
      \<and> render_cell (renderGenerator_edit env schema) value record index
        = Inr (Component B
            \<lparr>cp_value = js_coalesce value (obj_get schema ''defaultValue''),
             cp_data = record, cp_schema = schema, cp_ext = ext env, cp_index = index,
             cp_editable = editable env, cp_onChange = True\<rparr>)"
    by (auto simp: render_cell_def renderGenerator_def renderGenerator_edit_def)
  have 2: "obj_get schema ''component'' = JStr name \<and> builtins env name = None
      \<and> extra_component env name = Some E
      \<and> (ajv env \<longrightarrow> validateColumn env schema E = []) \<longrightarrow>
      render_cell (renderGenerator env schema) value record index
        = Inr (Component E
            \<lparr>cp_value = js_coalesce value (obj_get schema ''defaultValue''),
             cp_data = record, cp_schema = schema, cp_ext = ext env, cp_index = index,
             cp_editable = JUndefined, cp_onChange = False\<rparr>)
      \<and> render_cell (renderGenerator_edit env schema) value record index
        = Inr (Component E
            \<lparr>cp_value = js_coalesce value (obj_get schema ''defaultValue''),
             cp_data = record, cp_schema = schema, cp_ext = ext env, cp_index = index,
             cp_editable = editable env, cp_onChange = True\<rparr>)"
    using h by (auto simp: render_cell_def renderGenerator_def renderGenerator_edit_def)
  have 3: "render_cell (renderGenerator env schema) value record index = Inr (Component c p)
      \<longrightarrow> cp_value p = js_coalesce value (obj_get schema ''defaultValue'')"
    by (auto simp: render_cell_def renderGenerator_def unknown_component_def
        split: if_splits option.splits jsval.splits)
  have 4: "render_cell (renderGenerator_edit env schema) value record index = Inr (Component c p)
      \<longrightarrow> cp_value p = js_coalesce value (obj_get schema ''defaultValue'')"
    by (auto simp: render_cell_def renderGenerator_edit_def unknown_component_def
        split: if_splits option.splits jsval.splits)
  have 5: "js_coalesce JNull d = d \<and> js_coalesce JUndefined d = d
      \<and> (\<not> js_nullish value \<longrightarrow> js_coalesce value d = value)"
    by (simp add: js_coalesce_def)
  from 1 2 3 4 5 show ?thesis by blast
qed

lemma example_env_text:
  "obj_has text_column ''component''
   \<and> builtins example_env (js_String (obj_get text_column ''component'')) = Some ''DTCText''
   \<and> (ajv example_env \<longrightarrow> validateColumn example_env text_column ''DTCText'' = [])"
  by (simp add: text_column_def example_env_def obj_has_def obj_get_def)

lemma example_env_host:
  "obj_get host_column ''component'' = JStr ''lib::comp'' \<and> builtins example_env ''lib::comp'' = None
   \<and> extra_component example_env ''lib::comp'' = Some ''HostComp''
   \<and> (ajv example_env \<longrightarrow> validateColumn example_env host_column ''HostComp'' = [])"
  by (simp add: host_column_def example_env_def obj_get_def extra_component_def)

text \<open>
  A text column with the default \<open>-\<close> and a host component's column with the default 0,
  in both revisions: \<open>null\<close> and \<open>undefined\<close> are replaced by the default, the empty
  string and the number 7 are handed over as they are.
\<close>

theorem renderer_value_default_witness:
  "render_cell (renderGenerator example_env text_column) JNull Map.empty 0
     = Inr (Component ''DTCText''
         \<lparr>cp_value = JStr ''-'', cp_data = Map.empty, cp_schema = text_column,
          cp_ext = JUndefined, cp_index = 0, cp_editable = JUndefined, cp_onChange = False\<rparr>)
   \<and> render_cell (renderGenerator_edit example_env text_column) JNull Map.empty 0
     = Inr (Component ''DTCText''
         \<lparr>cp_value = JStr ''-'', cp_data = Map.empty, cp_schema = text_column,
          cp_ext = JUndefined, cp_index = 0, cp_editable = JBool False, cp_onChange = True\<rparr>)
   \<and> render_cell (renderGenerator_edit example_env text_column) JUndefined Map.empty 0
     = Inr (Component ''DTCText''
         \<lparr>cp_value = JStr ''-'', cp_data = Map.empty, cp_schema = text_column,
          cp_ext = JUndefined, cp_index = 0, cp_editable = JBool False, cp_onChange = True\<rparr>)
   \<and> render_cell (renderGenerator_edit example_env text_column) (JStr []) Map.empty 0
     = Inr (Component ''DTCText''
         \<lparr>cp_value = JStr [], cp_data = Map.empty, cp_schema = text_column,
          cp_ext = JUndefined, cp_index = 0, cp_editable = JBool False, cp_onChange = True\<rparr>)
   \<and> render_cell (renderGenerator example_env host_column) JNull Map.empty 3
     = Inr (Component ''HostComp''
         \<lparr>cp_value = JNum 0, cp_data = Map.empty, cp_schema = host_column,
          cp_ext = JUndefined, cp_index = 3, cp_editable = JUndefined, cp_onChange = False\<rparr>)
   \<and> render_cell (renderGenerator_edit example_env host_column) (JNum 7) Map.empty 3
     = Inr (Component ''HostComp''
         \<lparr>cp_value = JNum 7, cp_data = Map.empty, cp_schema = host_column,
          cp_ext = JUndefined, cp_index = 3, cp_editable = JBool False, cp_onChange = True\<rparr>)"
proof -
  have dt: "obj_get text_column ''defaultValue'' = JStr ''-''"
    and dh: "obj_get host_column ''defaultValue'' = JNum 0"
    and e: "ext example_env = JUndefined" "editable example_env = JBool False"
    by (simp_all add: text_column_def host_column_def example_env_def obj_get_def)
  note b = renderer_value_default [of text_column example_env "''DTCText''" _ Map.empty 0,
      THEN conjunct1, rule_format, OF example_env_text, unfolded dt e]
  note x = renderer_value_default [of host_column example_env _ _ Map.empty 3 "''lib::comp''"
      "''HostComp''", THEN conjunct2, THEN conjunct1, rule_format, OF example_env_host,
      unfolded dh e]
  from b [of JNull, THEN conjunct1] b [of JNull, THEN conjunct2] b [of JUndefined, THEN conjunct2]
    b [of "JStr []", THEN conjunct2] x [of JNull, THEN conjunct1] x [of "JNum 7", THEN conjunct2]
  show ?thesis
    by (simp add: js_coalesce_def)
qed

end
